theory Spec2Isabelle
  imports Complex_Main
begin

section \<open>Gesture interpreter: the frame body of \<open>predictWebcam\<close> (src/App.tsx)\<close>

text \<open>
  The model covers the part of \<open>predictWebcam\<close> that runs once a recogniser result is
  available (App.tsx lines 1522 to 1616). JavaScript numbers are modelled as real
  numbers: rounding of IEEE doubles is outside the model. The callbacks \<open>onGesture\<close>,
  \<open>onMove\<close>, \<open>onPinchStart\<close>, \<open>onPinchEnd\<close> and \<open>onStatus\<close> are recorded as the list
  of calls made, in the order the code makes them; the application always passes all
  five, so the tests \<open>if (onPinchStart)\<close> and \<open>if (onPinchEnd)\<close> succeed. The canvas
  drawing of debug mode has no effect on the callbacks or on the pinch flag and is left
  out.
\<close>

datatype formation = CHAOS | FORMED

record landmark =
  lm_x :: real
  lm_y :: real
  lm_z :: real

record category =
  categoryName :: string
  score :: real

text \<open>
  The recogniser result: \<open>gestures\<close> holds one list of categories per hand and
  \<open>landmarks\<close> one list of points per hand; the code reads the first hand only.
\<close>

record results =
  gestures :: "category list list"
  landmarks :: "landmark list list"

text \<open>The texts handed to \<open>onStatus\<close>, with the numbers they format kept as numbers.\<close>

datatype status =
    Detected string
  | Distance real bool
  | PinchStartAt real real
  | PinchEndReturning
  | NoHand

datatype event =
    OnGesture formation
  | OnMove real
  | OnPinchStart real real
  | OnPinchEnd
  | OnStatus status

text \<open>Reading a property of \<open>undefined\<close> throws a TypeError.\<close>

datatype error = TypeError

text \<open>
  What one call leaves behind: the callbacks invoked, the value of \<open>isPinchingRef.current\<close>
  and the exception that ended the call, if any.
\<close>

record outcome =
  emitted :: "event list"
  isPinching :: bool
  raised :: "error option"

text \<open>
  Lines 1522 to 1532. The result is the callbacks made and the value of the local
  variable \<open>currentGesture\<close> (\<open>None\<close> for \<open>null\<close>). \<open>results.gestures[0][0]\<close> of an empty
  category list is \<open>undefined\<close>, and reading \<open>categoryName\<close> from it throws.
\<close>

definition recognise :: "bool \<Rightarrow> results \<Rightarrow> error + (event list \<times> string option)" where
  "recognise debugMode r =
     (case gestures r of
        [] \<Rightarrow> Inr ([], None)
      | g # _ \<Rightarrow>
          (case g of
             [] \<Rightarrow> Inl TypeError
           | c # _ \<Rightarrow>
               (let name = categoryName c in
                if 0.4 < score c
                then Inr ((if name = ''Open_Palm'' then [OnGesture CHAOS] else []) @
                          (if name = ''Closed_Fist'' then [OnGesture FORMED] else []) @
                          (if debugMode then [OnStatus (Detected name)] else []),
                          Some name)
                else Inr ([], None))))"

definition PINCH_THRESHOLD :: real where
  "PINCH_THRESHOLD = 0.08"

text \<open>Lines 1549 to 1552: the Euclidean distance of thumb tip and index finger tip.\<close>

definition distance :: "landmark \<Rightarrow> landmark \<Rightarrow> real" where
  "distance thumbTip indexTip =
     (let dx = lm_x thumbTip - lm_x indexTip;
          dy = lm_y thumbTip - lm_y indexTip;
          dz = lm_z thumbTip - lm_z indexTip
      in sqrt (dx * dx + dy * dy + dz * dz))"

text \<open>
  Lines 1545 to 1603, entered only with at least nine landmarks, so that the reads of
  \<open>landmarks[4]\<close> and \<open>landmarks[8]\<close> are in range.
\<close>

definition detect_pinch :: "bool \<Rightarrow> bool \<Rightarrow> landmark list \<Rightarrow> event list \<times> bool" where
  "detect_pinch debugMode pinching hand =
     (let thumbTip = hand ! 4;
          indexTip = hand ! 8;
          d = distance thumbTip indexTip;
          dbg = (if debugMode \<and> d < 0.15 then [OnStatus (Distance d (d < PINCH_THRESHOLD))] else []);
          isCurrentlyPinching = (d < PINCH_THRESHOLD)
      in if isCurrentlyPinching \<and> \<not> pinching then
           (let pinchX = (lm_x thumbTip + lm_x indexTip) / 2;
                pinchY = (lm_y thumbTip + lm_y indexTip) / 2;
                screenX = pinchX;
                screenY = 1 - pinchY
            in (dbg @ [OnPinchStart screenX screenY] @
                (if debugMode then [OnStatus (PinchStartAt screenX screenY)] else []), True))
         else if \<not> isCurrentlyPinching \<and> pinching then
           (dbg @ [OnPinchEnd] @ (if debugMode then [OnStatus PinchEndReturning] else []), False)
         else (dbg, pinching))"

text \<open>Lines 1605 to 1611: the branch commented "No landmarks, reset pinch state".\<close>

definition reset_pinch :: "bool \<Rightarrow> event list \<times> bool" where
  "reset_pinch pinching = (if pinching then ([OnPinchEnd], False) else ([], pinching))"

text \<open>
  Lines 1535 to 1616. \<open>landmarks[0].x\<close> of a hand without points throws before \<open>onMove\<close>
  is called.
\<close>

definition track_hand :: "bool \<Rightarrow> string option \<Rightarrow> bool \<Rightarrow> results \<Rightarrow> error + (event list \<times> bool)" where
  "track_hand debugMode currentGesture pinching r =
     (case landmarks r of
        [] \<Rightarrow> Inr ([OnMove 0] @ (if debugMode then [OnStatus NoHand] else []), pinching)
      | hand # _ \<Rightarrow>
          (case hand of
             [] \<Rightarrow> Inl TypeError
           | wrist # _ \<Rightarrow>
               (let speed = (0.5 - lm_x wrist) * 0.15;
                    move = [OnMove (if 0.01 < \<bar>speed\<bar> then speed else 0)];
                    (es, pinching') =
                      (if 9 \<le> length hand \<and> currentGesture \<noteq> Some ''Open_Palm''
                       then detect_pinch debugMode pinching hand
                       else reset_pinch pinching)
                in Inr (move @ es, pinching'))))"

text \<open>
  One frame. An exception leaves the callbacks already made in place and the pinch flag
  as it was.
\<close>

definition predictWebcam :: "bool \<Rightarrow> bool \<Rightarrow> results \<Rightarrow> outcome" where
  "predictWebcam debugMode pinching r =
     (case recognise debugMode r of
        Inl e \<Rightarrow> \<lparr>emitted = [], isPinching = pinching, raised = Some e\<rparr>
      | Inr (es, currentGesture) \<Rightarrow>
          (case track_hand debugMode currentGesture pinching r of
             Inl e \<Rightarrow> \<lparr>emitted = es, isPinching = pinching, raised = Some e\<rparr>
           | Inr (es', pinching') \<Rightarrow>
               \<lparr>emitted = es @ es', isPinching = pinching', raised = None\<rparr>))"

text \<open>
  The frame loop: \<open>requestAnimationFrame(predictWebcam)\<close> is the last statement of the
  call, so a call that throws does not schedule the next one. The result lists the
  outcome of every call made.
\<close>

fun run_frames :: "bool \<Rightarrow> bool \<Rightarrow> results list \<Rightarrow> outcome list" where
  "run_frames debugMode pinching [] = []"
| "run_frames debugMode pinching (r # rs) =
     (let out = predictWebcam debugMode pinching r
      in out # (if raised out = None then run_frames debugMode (isPinching out) rs else []))"

subsection \<open>Observations on the callbacks made\<close>

fun is_formation :: "event \<Rightarrow> bool" where
  "is_formation (OnGesture _) = True"
| "is_formation _ = False"

fun is_move :: "event \<Rightarrow> bool" where
  "is_move (OnMove _) = True"
| "is_move _ = False"

fun is_start :: "event \<Rightarrow> bool" where
  "is_start (OnPinchStart _ _) = True"
| "is_start _ = False"

fun is_end :: "event \<Rightarrow> bool" where
  "is_end OnPinchEnd = True"
| "is_end _ = False"

definition is_pinch :: "event \<Rightarrow> bool" where
  "is_pinch e = (is_start e \<or> is_end e)"

definition formation_events :: "event list \<Rightarrow> event list" where
  "formation_events es = filter is_formation es"

definition move_events :: "event list \<Rightarrow> event list" where
  "move_events es = filter is_move es"

definition pinch_events :: "event list \<Rightarrow> event list" where
  "pinch_events es = filter is_pinch es"

text \<open>
  The value the local variable \<open>currentGesture\<close> has after lines 1522 to 1532 of a call
  that does not throw there, and the condition under which these lines throw.
\<close>

definition currentGesture :: "results \<Rightarrow> string option" where
  "currentGesture r =
     (case gestures r of
        (c # _) # _ \<Rightarrow> if 0.4 < score c then Some (categoryName c) else None
      | _ \<Rightarrow> None)"

definition top_missing :: "results \<Rightarrow> bool" where
  "top_missing r = (case gestures r of [] # _ \<Rightarrow> True | _ \<Rightarrow> False)"

text \<open>
  A frame on which the pinch distance is tested (line 1544): a hand with at least nine
  points, and a current gesture other than Open_Palm.
\<close>

definition evaluated :: "results \<Rightarrow> bool" where
  "evaluated r =
     (\<not> top_missing r \<and> currentGesture r \<noteq> Some ''Open_Palm'' \<and>
      (case landmarks r of hand # _ \<Rightarrow> 9 \<le> length hand | [] \<Rightarrow> False))"

text \<open>The pinch predicate of a frame: line 1566 on the first hand.\<close>

definition pinch_predicate :: "results \<Rightarrow> bool" where
  "pinch_predicate r =
     (case landmarks r of
        hand # _ \<Rightarrow> distance (hand ! 4) (hand ! 8) < PINCH_THRESHOLD
      | [] \<Rightarrow> False)"

text \<open>The number of false-to-true and of true-to-false steps along a list of flags.\<close>

fun rising :: "bool list \<Rightarrow> nat" where
  "rising (a # b # xs) = (if \<not> a \<and> b then 1 else 0) + rising (b # xs)"
| "rising _ = 0"

fun falling :: "bool list \<Rightarrow> nat" where
  "falling (a # b # xs) = (if a \<and> \<not> b then 1 else 0) + falling (b # xs)"
| "falling _ = 0"

subsection \<open>Sample frames\<close>

definition pt :: "real \<Rightarrow> real \<Rightarrow> real \<Rightarrow> landmark" where
  "pt a b c = \<lparr>lm_x = a, lm_y = b, lm_z = c\<rparr>"

text \<open>A hand of 21 points: the wrist (index 0), the thumb tip (4) and the index tip (8).\<close>

definition hand21 :: "landmark \<Rightarrow> landmark \<Rightarrow> landmark \<Rightarrow> landmark list" where
  "hand21 wrist thumbTip indexTip =
     [wrist, wrist, wrist, wrist, thumbTip, wrist, wrist, wrist, indexTip, wrist, wrist,
      wrist, wrist, wrist, wrist, wrist, wrist, wrist, wrist, wrist, wrist]"

text \<open>
  A frame with the given categories for one hand of 21 points, centred wrist, whose thumb
  tip and index tip are \<open>d\<close> apart along the horizontal axis.
\<close>

definition apart :: "category list list \<Rightarrow> real \<Rightarrow> results" where
  "apart gs d =
     \<lparr>gestures = gs,
      landmarks = [hand21 (pt 0.5 0.5 0) (pt 0.5 0.5 0) (pt (0.5 + d) 0.5 0)]\<rparr>"

definition labelled :: "string \<Rightarrow> real \<Rightarrow> category list list" where
  "labelled name s = [[\<lparr>categoryName = name, score = s\<rparr>]]"

definition no_hand :: results where
  "no_hand = \<lparr>gestures = [], landmarks = []\<rparr>"

text \<open>A hand of 21 points with the wrist at \<open>x\<close>, thumb tip and index tip 0.2 apart.\<close>

definition hand_at :: "real \<Rightarrow> results" where
  "hand_at x = \<lparr>gestures = [], landmarks = [hand21 (pt x 0.5 0) (pt 0.4 0.5 0) (pt 0.6 0.5 0)]\<rparr>"

text \<open>A hand reported with five points only, the wrist at \<open>x = 0.1\<close>.\<close>

definition short_hand :: results where
  "short_hand = \<lparr>gestures = [], landmarks = [replicate 5 (pt 0.1 0.5 0)]\<rparr>"

section \<open>Scene controller: the state of \<open>GrandTreeApp\<close>\<close>

text \<open>
  The state variables of \<open>GrandTreeApp\<close> that the gesture callbacks write, and the
  callbacks of \<open>setTimeout\<close> that are scheduled and have not run yet, oldest first, each
  with the coordinates it closes over.
\<close>

record app =
  sceneState :: formation
  rotationSpeed :: real
  selectedPhotoIndex :: "int option"
  timeouts :: "(real \<times> real) list"

definition initial :: app where
  "initial = \<lparr>sceneState = CHAOS, rotationSpeed = 0, selectedPhotoIndex = None, timeouts = []\<rparr>"

text \<open>\<open>CONFIG.counts.ornaments\<close> (line 70).\<close>

definition ornaments :: int where
  "ornaments = 72"

text \<open>Lines 1703 to 1707, the body of the effect that resets the selection.\<close>

definition reset_selected :: "app \<Rightarrow> app" where
  "reset_selected s = (if sceneState s = FORMED then s\<lparr>selectedPhotoIndex := None\<rparr> else s)"

text \<open>
  React renders once the callbacks of a frame have returned. The effect of lines 1703 to
  1707 has the dependency list \<open>[sceneState]\<close>: it runs after a render in which
  \<open>sceneState\<close> differs from the render before (\<open>previous\<close>), and not otherwise; setting
  a state variable to the value it has changes nothing.
\<close>

definition render :: "formation \<Rightarrow> app \<Rightarrow> app" where
  "render previous s = (if sceneState s = previous then s else reset_selected s)"

text \<open>
  Lines 1671 to 1695. \<open>handlePinchStart\<close> is made by \<open>useCallback\<close> with the dependency
  list \<open>[sceneState]\<close>: the \<open>sceneState\<close> it tests is the one of the render that made it
  (\<open>captured\<close>), not the value that a \<open>setSceneState\<close> call of the same frame has just
  written. With a captured state other than CHAOS the call returns at once; with CHAOS it
  schedules the selection.
\<close>

definition handlePinchStart :: "formation \<Rightarrow> real \<Rightarrow> real \<Rightarrow> app \<Rightarrow> app" where
  "handlePinchStart captured screenX screenY s =
     (if captured \<noteq> CHAOS then s
      else s\<lparr>timeouts := timeouts s @ [(screenX, screenY)]\<rparr>)"

text \<open>
  Lines 1677 to 1682: what \<open>photoIndex\<close> holds after the hit test. \<open>findClosestPhoto\<close> is
  what \<open>window.findClosestPhoto\<close> holds when the callback runs (\<open>None\<close> when the render
  layer has not registered it). The function (lines 1279 to 1340) casts a ray through the
  scene of the rendering library; the callback uses its result only, and the function is
  a parameter here.
\<close>

definition lookup_photo :: "(real \<Rightarrow> real \<Rightarrow> int option) option \<Rightarrow> real \<Rightarrow> real \<Rightarrow> int option" where
  "lookup_photo findClosestPhoto screenX screenY =
     (case findClosestPhoto of
        None \<Rightarrow> None
      | Some f \<Rightarrow> f screenX screenY)"

text \<open>
  Lines 1677 to 1691, the scheduled callback. \<open>rnd\<close> is the value \<open>Math.random()\<close>
  returns, a number from 0 up to but not including 1.
\<close>

definition timeout_callback ::
  "(real \<Rightarrow> real \<Rightarrow> int option) option \<Rightarrow> real \<Rightarrow> real \<Rightarrow> real \<Rightarrow> app \<Rightarrow> app" where
  "timeout_callback findClosestPhoto rnd screenX screenY s =
     (let photoIndex = lookup_photo findClosestPhoto screenX screenY;
          photoIndex = (case photoIndex of
                          None \<Rightarrow> Some \<lfloor>rnd * of_int ornaments\<rfloor>
                        | Some i \<Rightarrow> Some i)
      in case photoIndex of
           None \<Rightarrow> s
         | Some i \<Rightarrow> s\<lparr>selectedPhotoIndex := Some i\<rparr>)"

text \<open>
  The oldest scheduled callback runs. It writes \<open>selectedPhotoIndex\<close> only, so the render
  that follows does not run the effect on \<open>sceneState\<close>.
\<close>

definition run_timeout :: "(real \<Rightarrow> real \<Rightarrow> int option) option \<Rightarrow> real \<Rightarrow> app \<Rightarrow> app" where
  "run_timeout findClosestPhoto rnd s =
     (case timeouts s of
        [] \<Rightarrow> s
      | (screenX, screenY) # rest \<Rightarrow>
          timeout_callback findClosestPhoto rnd screenX screenY (s\<lparr>timeouts := rest\<rparr>))"

text \<open>Lines 1698 to 1700.\<close>

definition handlePinchEnd :: "app \<Rightarrow> app" where
  "handlePinchEnd s = s\<lparr>selectedPhotoIndex := None\<rparr>"

text \<open>
  The callbacks that \<open>GrandTreeApp\<close> passes to the gesture controller (lines 1741 to
  1748), as made by a render whose \<open>sceneState\<close> is \<open>captured\<close>: \<open>onGesture\<close> is
  \<open>setSceneState\<close>, \<open>onMove\<close> is \<open>setRotationSpeed\<close>, and \<open>onStatus\<close> is \<open>setAiStatus\<close>,
  a variable that the state above leaves out.
\<close>

definition callback :: "formation \<Rightarrow> event \<Rightarrow> app \<Rightarrow> app" where
  "callback captured e s =
     (case e of
        OnGesture v \<Rightarrow> s\<lparr>sceneState := v\<rparr>
      | OnMove v \<Rightarrow> s\<lparr>rotationSpeed := v\<rparr>
      | OnPinchStart screenX screenY \<Rightarrow> handlePinchStart captured screenX screenY s
      | OnPinchEnd \<Rightarrow> handlePinchEnd s
      | OnStatus m \<Rightarrow> s)"

text \<open>
  One frame on the side of the application: the calls that \<open>predictWebcam\<close> makes go, in
  their order, to the callbacks of the last render, and then React renders.
\<close>

definition apply_frame :: "event list \<Rightarrow> app \<Rightarrow> app" where
  "apply_frame es s = render (sceneState s) (fold (callback (sceneState s)) es s)"

section \<open>Facts about one frame\<close>

lemma edges_detect_pinch:
  "detect_pinch dbg p hand = (es, p') \<Longrightarrow>
     length (filter is_start es) = (if \<not> p \<and> p' then 1 else 0) \<and>
     length (filter is_end es) = (if p \<and> \<not> p' then 1 else 0) \<and>
     p' = (distance (hand ! 4) (hand ! 8) < PINCH_THRESHOLD)"
  by (auto simp: detect_pinch_def Let_def split: if_splits)

lemma starts_recognise:
  "recognise dbg r = Inr (es, cur) \<Longrightarrow> filter is_start es = [] \<and> filter is_end es = []"
  by (auto simp: recognise_def Let_def split: list.splits if_splits)

lemma starts_track_hand:
  "track_hand dbg cur p r = Inr (es, p') \<Longrightarrow>
     length (filter is_start es) = (if \<not> p \<and> p' then 1 else 0) \<and>
     length (filter is_end es) = (if p \<and> \<not> p' then 1 else 0)"
  by (auto simp: track_hand_def Let_def reset_pinch_def
      split: list.splits if_splits prod.splits dest!: edges_detect_pinch)

lemma edges_predictWebcam:
  "length (filter is_start (emitted (predictWebcam dbg p r))) =
     (if \<not> p \<and> isPinching (predictWebcam dbg p r) then 1 else 0) \<and>
   length (filter is_end (emitted (predictWebcam dbg p r))) =
     (if p \<and> \<not> isPinching (predictWebcam dbg p r) then 1 else 0)"
proof (cases "recognise dbg r")
  case (Inl e)
  then show ?thesis by (simp add: predictWebcam_def)
next
  case (Inr b)
  obtain es cur where b: "b = (es, cur)" by (cases b)
  note rec = starts_recognise [OF Inr [unfolded b]]
  show ?thesis
  proof (cases "track_hand dbg cur p r")
    case (Inl e)
    with Inr b rec show ?thesis by (simp add: predictWebcam_def)
  next
    case (Inr c)
    obtain es' p' where c: "c = (es', p')" by (cases c)
    from starts_track_hand [OF Inr [unfolded c]] \<open>recognise dbg r = Inr b\<close> b rec Inr c
    show ?thesis by (simp add: predictWebcam_def)
  qed
qed

lemma recognise_Inr:
  "recognise dbg r = Inr (es, cur) \<Longrightarrow>
     cur = currentGesture r \<and> pinch_events es = [] \<and> move_events es = [] \<and> \<not> top_missing r"
  by (auto simp: recognise_def currentGesture_def top_missing_def pinch_events_def is_pinch_def
      move_events_def Let_def split: list.splits if_splits)

lemma recognise_Inl: "recognise dbg r = Inl e \<Longrightarrow> top_missing r"
  by (auto simp: recognise_def top_missing_def Let_def split: list.splits if_splits)

lemma recognise_ok:
  "\<not> top_missing r \<Longrightarrow> \<exists>es. recognise dbg r = Inr (es, currentGesture r)"
  by (cases "recognise dbg r") (auto dest: recognise_Inl recognise_Inr)

lemma pinch_events_detect_pinch:
  "pinch_events (fst (detect_pinch dbg p hand)) =
     (if distance (hand ! 4) (hand ! 8) < PINCH_THRESHOLD \<and> \<not> p
      then [OnPinchStart ((lm_x (hand ! 4) + lm_x (hand ! 8)) / 2)
                         (1 - (lm_y (hand ! 4) + lm_y (hand ! 8)) / 2)]
      else if \<not> distance (hand ! 4) (hand ! 8) < PINCH_THRESHOLD \<and> p then [OnPinchEnd]
      else [])"
  by (simp add: detect_pinch_def pinch_events_def is_pinch_def Let_def)

lemma move_events_detect_pinch: "move_events (fst (detect_pinch dbg p hand)) = []"
  by (simp add: detect_pinch_def move_events_def Let_def)

lemma track_hand_points:
  assumes "landmarks r = (wrist # pts) # hs"
  shows "\<exists>es p'. track_hand dbg cur p r = Inr (es, p') \<and>
           move_events es =
             [OnMove (if 0.01 < \<bar>(0.5 - lm_x wrist) * 0.15\<bar> then (0.5 - lm_x wrist) * 0.15 else 0)] \<and>
           pinch_events es =
             (if 9 \<le> length (wrist # pts) \<and> cur \<noteq> Some ''Open_Palm''
              then pinch_events (fst (detect_pinch dbg p (wrist # pts)))
              else if p then [OnPinchEnd] else []) \<and>
           p' = (9 \<le> length (wrist # pts) \<and> cur \<noteq> Some ''Open_Palm'' \<and>
                 distance ((wrist # pts) ! 4) ((wrist # pts) ! 8) < PINCH_THRESHOLD)"
proof (cases "9 \<le> length (wrist # pts) \<and> cur \<noteq> Some ''Open_Palm''")
  case True
  obtain es p' where d: "detect_pinch dbg p (wrist # pts) = (es, p')"
    by (cases "detect_pinch dbg p (wrist # pts)")
  from edges_detect_pinch [OF d]
  have p': "p' = (distance ((wrist # pts) ! 4) ((wrist # pts) ! 8) < PINCH_THRESHOLD)"
    by simp
  have m: "move_events es = []"
    using move_events_detect_pinch [of dbg p "wrist # pts"] d by simp
  from assms True d p' m show ?thesis
    by (simp add: track_hand_def Let_def move_events_def pinch_events_def is_pinch_def)
next
  case False
  with assms show ?thesis
    by (auto simp: track_hand_def Let_def reset_pinch_def move_events_def pinch_events_def
        is_pinch_def)
qed

lemma move_events_append: "move_events (es @ es') = move_events es @ move_events es'"
  by (simp add: move_events_def)

lemma pinch_events_append: "pinch_events (es @ es') = pinch_events es @ pinch_events es'"
  by (simp add: pinch_events_def)

lemma predictWebcam_hand:
  assumes "\<not> top_missing r" and "landmarks r = (wrist # pts) # hs"
  shows "raised (predictWebcam dbg p r) = None \<and>
         move_events (emitted (predictWebcam dbg p r)) =
           [OnMove (if 0.01 < \<bar>(0.5 - lm_x wrist) * 0.15\<bar> then (0.5 - lm_x wrist) * 0.15 else 0)] \<and>
         pinch_events (emitted (predictWebcam dbg p r)) =
           (if 9 \<le> length (wrist # pts) \<and> currentGesture r \<noteq> Some ''Open_Palm''
            then pinch_events (fst (detect_pinch dbg p (wrist # pts)))
            else if p then [OnPinchEnd] else []) \<and>
         isPinching (predictWebcam dbg p r) =
           (9 \<le> length (wrist # pts) \<and> currentGesture r \<noteq> Some ''Open_Palm'' \<and>
            distance ((wrist # pts) ! 4) ((wrist # pts) ! 8) < PINCH_THRESHOLD)"
proof -
  from recognise_ok [OF assms(1)] obtain es where
    rec: "recognise dbg r = Inr (es, currentGesture r)" by blast
  from recognise_Inr [OF rec] have es: "pinch_events es = []" "move_events es = []"
    by simp_all
  from track_hand_points [OF assms(2), of dbg "currentGesture r" p] obtain es' p' where
    tr: "track_hand dbg (currentGesture r) p r = Inr (es', p')" and
    mv: "move_events es' =
           [OnMove (if 0.01 < \<bar>(0.5 - lm_x wrist) * 0.15\<bar> then (0.5 - lm_x wrist) * 0.15 else 0)]" and
    pe: "pinch_events es' =
           (if 9 \<le> length (wrist # pts) \<and> currentGesture r \<noteq> Some ''Open_Palm''
            then pinch_events (fst (detect_pinch dbg p (wrist # pts)))
            else if p then [OnPinchEnd] else [])" and
    p': "p' = (9 \<le> length (wrist # pts) \<and> currentGesture r \<noteq> Some ''Open_Palm'' \<and>
               distance ((wrist # pts) ! 4) ((wrist # pts) ! 8) < PINCH_THRESHOLD)"
    by blast
  have out: "predictWebcam dbg p r = \<lparr>emitted = es @ es', isPinching = p', raised = None\<rparr>"
    by (simp add: predictWebcam_def rec tr)
  show ?thesis
    unfolding out using es mv pe p'
    by (simp add: move_events_append pinch_events_append)
qed

lemma predictWebcam_no_hand:
  assumes "\<not> top_missing r" and "landmarks r = []"
  shows "raised (predictWebcam dbg p r) = None \<and>
         move_events (emitted (predictWebcam dbg p r)) = [OnMove 0] \<and>
         pinch_events (emitted (predictWebcam dbg p r)) = [] \<and>
         isPinching (predictWebcam dbg p r) = p"
proof -
  from recognise_ok [OF assms(1)] obtain es where
    rec: "recognise dbg r = Inr (es, currentGesture r)" by blast
  from recognise_Inr [OF rec] have es: "pinch_events es = []" "move_events es = []"
    by simp_all
  have out: "predictWebcam dbg p r =
      \<lparr>emitted = es @ [OnMove 0] @ (if dbg then [OnStatus NoHand] else []), isPinching = p,
       raised = None\<rparr>"
    by (simp add: predictWebcam_def rec track_hand_def assms(2))
  show ?thesis
    unfolding out using es
    by (simp add: move_events_append pinch_events_append)
       (simp add: move_events_def pinch_events_def is_pinch_def)
qed

lemma predictWebcam_top_missing:
  "top_missing r \<Longrightarrow>
     predictWebcam dbg p r = \<lparr>emitted = [], isPinching = p, raised = Some TypeError\<rparr>"
  by (auto simp: predictWebcam_def recognise_def top_missing_def split: list.splits)

lemma predictWebcam_empty_hand:
  assumes "\<not> top_missing r" and "landmarks r = [] # hs"
  shows "raised (predictWebcam dbg p r) = Some TypeError \<and>
         move_events (emitted (predictWebcam dbg p r)) = [] \<and>
         pinch_events (emitted (predictWebcam dbg p r)) = [] \<and>
         isPinching (predictWebcam dbg p r) = p"
proof -
  from recognise_ok [OF assms(1)] obtain es where
    rec: "recognise dbg r = Inr (es, currentGesture r)" by blast
  from recognise_Inr [OF rec] have es: "pinch_events es = []" "move_events es = []"
    by simp_all
  have out: "predictWebcam dbg p r = \<lparr>emitted = es, isPinching = p, raised = Some TypeError\<rparr>"
    by (simp add: predictWebcam_def rec track_hand_def assms(2))
  show ?thesis
    unfolding out using es by simp
qed

section \<open>Formation events\<close>

lemma formation_events_track_hand:
  "track_hand dbg cur p r = Inr (es, p') \<Longrightarrow> formation_events es = []"
  by (auto simp: track_hand_def detect_pinch_def reset_pinch_def formation_events_def Let_def
      split: list.splits if_splits)

lemma formation_events_append:
  "formation_events (es @ es') = formation_events es @ formation_events es'"
  by (simp add: formation_events_def)

lemma formation_events_predictWebcam:
  "formation_events (emitted (predictWebcam dbg p r)) =
     (case recognise dbg r of Inl e \<Rightarrow> [] | Inr (es, cur) \<Rightarrow> formation_events es)"
  by (auto simp: predictWebcam_def formation_events_append formation_events_track_hand
      formation_events_def [of "[]"] split: sum.splits prod.splits)

text \<open>
  Claim C3. A processed frame calls \<open>onGesture\<close> exactly when the first category of the
  first hand has a score above 0.4 and is named Open_Palm (then with CHAOS) or
  Closed_Fist (then with FORMED); with a score of at most 0.4, or with no category at
  all, \<open>onGesture\<close> is not called, whatever the label.
\<close>

theorem formation_event_iff:
  "(gestures r = (c # cs) # gs \<longrightarrow>
      formation_events (emitted (predictWebcam dbg p r)) =
        (if 0.4 < score c \<and> categoryName c = ''Open_Palm'' then [OnGesture CHAOS]
         else if 0.4 < score c \<and> categoryName c = ''Closed_Fist'' then [OnGesture FORMED]
         else [])) \<and>
   (gestures r = [] \<or> gestures r = [] # gs \<longrightarrow>
      formation_events (emitted (predictWebcam dbg p r)) = [])"
  unfolding formation_events_predictWebcam
  by (auto simp: recognise_def formation_events_def Let_def)

theorem formation_event_iff_witness:
  "gestures (apart (labelled ''Open_Palm'' 0.9) 0.2) =
     (\<lparr>categoryName = ''Open_Palm'', score = 0.9\<rparr> # []) # [] \<and>
   formation_events (emitted (predictWebcam False False (apart (labelled ''Open_Palm'' 0.9) 0.2))) =
     [OnGesture CHAOS] \<and>
   gestures (apart (labelled ''Closed_Fist'' 0.41) 0.2) =
     (\<lparr>categoryName = ''Closed_Fist'', score = 0.41\<rparr> # []) # [] \<and>
   formation_events (emitted (predictWebcam False False (apart (labelled ''Closed_Fist'' 0.41) 0.2))) =
     [OnGesture FORMED] \<and>
   gestures (apart (labelled ''Closed_Fist'' 0.4) 0.2) =
     (\<lparr>categoryName = ''Closed_Fist'', score = 0.4\<rparr> # []) # [] \<and>
   formation_events (emitted (predictWebcam False False (apart (labelled ''Closed_Fist'' 0.4) 0.2))) =
     [] \<and>
   gestures no_hand = [] \<and>
   formation_events (emitted (predictWebcam False False no_hand)) = []"
  using formation_event_iff [of "apart (labelled ''Open_Palm'' 0.9) 0.2"
      "\<lparr>categoryName = ''Open_Palm'', score = 0.9\<rparr>" "[]" "[]" False False]
    formation_event_iff [of "apart (labelled ''Closed_Fist'' 0.41) 0.2"
      "\<lparr>categoryName = ''Closed_Fist'', score = 0.41\<rparr>" "[]" "[]" False False]
    formation_event_iff [of "apart (labelled ''Closed_Fist'' 0.4) 0.2"
      "\<lparr>categoryName = ''Closed_Fist'', score = 0.4\<rparr>" "[]" "[]" False False]
    formation_event_iff [where r = no_hand and gs = "[]" and dbg = False and p = False]
  by (simp add: apart_def labelled_def no_hand_def)

section \<open>Pinch events along a sequence of frames\<close>

lemma run_frames_edges:
  "length (filter is_start (concat (map emitted (run_frames dbg p rs)))) =
     rising (p # map isPinching (run_frames dbg p rs)) \<and>
   length (filter is_end (concat (map emitted (run_frames dbg p rs)))) =
     falling (p # map isPinching (run_frames dbg p rs))"
proof (induction rs arbitrary: p)
  case Nil
  show ?case by simp
next
  case (Cons r rs)
  show ?case
    using Cons.IH [of "isPinching (predictWebcam dbg p r)"] edges_predictWebcam [of dbg p r]
    by (simp add: Let_def)
qed

lemma evaluated_frame:
  assumes "evaluated r" and "landmarks r = hand # hs"
  shows "raised (predictWebcam dbg p r) = None \<and>
         isPinching (predictWebcam dbg p r) = pinch_predicate r \<and>
         pinch_events (emitted (predictWebcam dbg p r)) =
           (if pinch_predicate r \<and> \<not> p
            then [OnPinchStart ((lm_x (hand ! 4) + lm_x (hand ! 8)) / 2)
                               (1 - (lm_y (hand ! 4) + lm_y (hand ! 8)) / 2)]
            else if \<not> pinch_predicate r \<and> p then [OnPinchEnd]
            else [])"
proof -
  from assms have len: "9 \<le> length hand" and tm: "\<not> top_missing r"
    and cg: "currentGesture r \<noteq> Some ''Open_Palm''"
    by (simp_all add: evaluated_def)
  from len obtain wrist pts where hand: "hand = wrist # pts"
    by (cases hand) simp_all
  from predictWebcam_hand [OF tm assms(2) [unfolded hand], of dbg p] len cg assms(2)
  show ?thesis
    by (simp add: hand pinch_predicate_def pinch_events_detect_pinch)
qed

lemma evaluated_hand: "evaluated r \<Longrightarrow> \<exists>hand hs. landmarks r = hand # hs"
  by (cases "landmarks r") (simp_all add: evaluated_def)

lemma run_frames_evaluated:
  "\<forall>r\<in>set rs. evaluated r \<Longrightarrow>
     map isPinching (run_frames dbg p rs) = map pinch_predicate rs"
proof (induction rs arbitrary: p)
  case Nil
  show ?case by simp
next
  case (Cons r rs)
  from Cons.prems have ev: "evaluated r" and rest: "\<forall>r\<in>set rs. evaluated r"
    by simp_all
  from evaluated_hand [OF ev] obtain hand hs where h: "landmarks r = hand # hs"
    by blast
  from evaluated_frame [OF ev h, of dbg p] Cons.IH [OF rest, of "pinch_predicate r"]
  show ?case
    by (simp add: Let_def)
qed

lemma pinch_events_Nil: "pinch_events [] = []"
  by (simp add: pinch_events_def)

lemma three_frames:
  assumes ev: "evaluated r1" "evaluated r2" "evaluated r3"
    and h: "landmarks r1 = h1 # hs1" "landmarks r2 = h2 # hs2" "landmarks r3 = h3 # hs3"
    and d: "distance (h1 ! 4) (h1 ! 8) = 0.20" "distance (h2 ! 4) (h2 ! 8) = 0.05"
      "distance (h3 ! 4) (h3 ! 8) = 0.20"
  shows "pinch_events (concat (map emitted (run_frames dbg False [r1, r2, r3]))) =
           [OnPinchStart ((lm_x (h2 ! 4) + lm_x (h2 ! 8)) / 2)
                         (1 - (lm_y (h2 ! 4) + lm_y (h2 ! 8)) / 2),
            OnPinchEnd]"
proof -
  have p1: "\<not> pinch_predicate r1" and p2: "pinch_predicate r2" and p3: "\<not> pinch_predicate r3"
    using h d by (simp_all add: pinch_predicate_def PINCH_THRESHOLD_def)
  note f1 = evaluated_frame [OF ev(1) h(1), of dbg False]
  note f2 = evaluated_frame [OF ev(2) h(2), of dbg False]
  note f3 = evaluated_frame [OF ev(3) h(3), of dbg True]
  from f1 f2 f3 p1 p2 p3 show ?thesis
    by (simp add: Let_def pinch_events_append pinch_events_Nil)
qed

lemma untested_hand_frame:
  assumes "\<not> top_missing r" and "landmarks r = (wrist # pts) # hs" and "\<not> evaluated r"
  shows "raised (predictWebcam dbg p r) = None \<and>
         \<not> isPinching (predictWebcam dbg p r) \<and>
         pinch_events (emitted (predictWebcam dbg p r)) = (if p then [OnPinchEnd] else [])"
proof -
  from assms have n: "\<not> (9 \<le> length (wrist # pts) \<and> currentGesture r \<noteq> Some ''Open_Palm'')"
    by (auto simp: evaluated_def)
  from predictWebcam_hand [OF assms(1,2), of dbg p] n show ?thesis
    by auto
qed

text \<open>
  Claim C1, as amended. Pinch events are edge-triggered on the stored pinch flag. Along
  every sequence of frames, the number of \<open>onPinchStart\<close> calls is the number of
  false-to-true steps of the flag and the number of \<open>onPinchEnd\<close> calls the number of its
  true-to-false steps, so a frame that leaves the flag as it was makes neither call. On
  frames whose pinch distance is tested (a hand of at least nine points, current gesture
  not Open_Palm), the flag after the frame is the pinch predicate (distance below 0.08)
  of the frame, so along such frames the calls count the transitions of the predicate.
  A frame with a hand whose distance is not tested (Open_Palm, or fewer than nine points)
  resets the flag, with one \<open>onPinchEnd\<close> call if it was true. Three tested frames with
  distances 0.20, 0.05 and 0.20, starting from a false flag, give exactly one
  \<open>onPinchStart\<close> followed by one \<open>onPinchEnd\<close>.
\<close>

theorem pinch_edge_triggered:
  "length (filter is_start (concat (map emitted (run_frames dbg p rs)))) =
     rising (p # map isPinching (run_frames dbg p rs)) \<and>
   length (filter is_end (concat (map emitted (run_frames dbg p rs)))) =
     falling (p # map isPinching (run_frames dbg p rs)) \<and>
   ((\<forall>r\<in>set rs. evaluated r) \<longrightarrow>
      map isPinching (run_frames dbg p rs) = map pinch_predicate rs \<and>
      length (filter is_start (concat (map emitted (run_frames dbg p rs)))) =
        rising (p # map pinch_predicate rs) \<and>
      length (filter is_end (concat (map emitted (run_frames dbg p rs)))) =
        falling (p # map pinch_predicate rs)) \<and>
   (evaluated r1 \<and> evaluated r2 \<and> evaluated r3 \<and>
    landmarks r1 = h1 # hs1 \<and> landmarks r2 = h2 # hs2 \<and> landmarks r3 = h3 # hs3 \<and>
    distance (h1 ! 4) (h1 ! 8) = 0.20 \<and> distance (h2 ! 4) (h2 ! 8) = 0.05 \<and>
    distance (h3 ! 4) (h3 ! 8) = 0.20 \<longrightarrow>
      pinch_events (concat (map emitted (run_frames dbg False [r1, r2, r3]))) =
        [OnPinchStart ((lm_x (h2 ! 4) + lm_x (h2 ! 8)) / 2)
                      (1 - (lm_y (h2 ! 4) + lm_y (h2 ! 8)) / 2),
         OnPinchEnd]) \<and>
   (\<not> top_missing r \<and> landmarks r = (wrist # pts) # hs \<and> \<not> evaluated r \<longrightarrow>
      isPinching (predictWebcam dbg p r) = False \<and>
      pinch_events (emitted (predictWebcam dbg p r)) = (if p then [OnPinchEnd] else []))"
proof (intro conjI impI)
  show "length (filter is_start (concat (map emitted (run_frames dbg p rs)))) =
          rising (p # map isPinching (run_frames dbg p rs))"
    by (simp add: run_frames_edges)
  show "length (filter is_end (concat (map emitted (run_frames dbg p rs)))) =
          falling (p # map isPinching (run_frames dbg p rs))"
    by (simp add: run_frames_edges)
next
  assume a: "\<forall>r\<in>set rs. evaluated r"
  show st: "map isPinching (run_frames dbg p rs) = map pinch_predicate rs"
    by (rule run_frames_evaluated [OF a])
  show "length (filter is_start (concat (map emitted (run_frames dbg p rs)))) =
          rising (p # map pinch_predicate rs)"
    using run_frames_edges [of dbg p rs] st by simp
  show "length (filter is_end (concat (map emitted (run_frames dbg p rs)))) =
          falling (p # map pinch_predicate rs)"
    using run_frames_edges [of dbg p rs] st by simp
next
  assume a: "evaluated r1 \<and> evaluated r2 \<and> evaluated r3 \<and>
    landmarks r1 = h1 # hs1 \<and> landmarks r2 = h2 # hs2 \<and> landmarks r3 = h3 # hs3 \<and>
    distance (h1 ! 4) (h1 ! 8) = 0.20 \<and> distance (h2 ! 4) (h2 ! 8) = 0.05 \<and>
    distance (h3 ! 4) (h3 ! 8) = 0.20"
  from a have "evaluated r1" "evaluated r2" "evaluated r3"
    "landmarks r1 = h1 # hs1" "landmarks r2 = h2 # hs2" "landmarks r3 = h3 # hs3"
    "distance (h1 ! 4) (h1 ! 8) = 0.20" "distance (h2 ! 4) (h2 ! 8) = 0.05"
    "distance (h3 ! 4) (h3 ! 8) = 0.20"
    by blast+
  then show "pinch_events (concat (map emitted (run_frames dbg False [r1, r2, r3]))) =
        [OnPinchStart ((lm_x (h2 ! 4) + lm_x (h2 ! 8)) / 2)
                      (1 - (lm_y (h2 ! 4) + lm_y (h2 ! 8)) / 2),
         OnPinchEnd]"
    by (rule three_frames)
next
  assume a: "\<not> top_missing r \<and> landmarks r = (wrist # pts) # hs \<and> \<not> evaluated r"
  then have "\<not> top_missing r" "landmarks r = (wrist # pts) # hs" "\<not> evaluated r"
    by simp_all
  from untested_hand_frame [OF this, of dbg p]
  show "isPinching (predictWebcam dbg p r) = False"
    and "pinch_events (emitted (predictWebcam dbg p r)) = (if p then [OnPinchEnd] else [])"
    by simp_all
qed

lemma distance_apart:
  "0 \<le> d \<Longrightarrow> distance (pt 0.5 0.5 0) (pt (0.5 + d) 0.5 0) = d"
  by (simp add: distance_def pt_def)

lemma evaluated_apart: "evaluated (apart [] d)"
  by (simp add: evaluated_def apart_def top_missing_def currentGesture_def hand21_def)

lemma pinch_predicate_apart:
  assumes "0 \<le> d"
  shows "pinch_predicate (apart gs d) = (d < 0.08)"
proof -
  have "pinch_predicate (apart gs d) =
          (distance (pt 0.5 0.5 0) (pt (0.5 + d) 0.5 0) < PINCH_THRESHOLD)"
    by (simp add: pinch_predicate_def apart_def hand21_def)
  also have "\<dots> = (d < 0.08)"
    by (simp only: distance_apart [OF assms] PINCH_THRESHOLD_def)
  finally show ?thesis .
qed

theorem pinch_edge_triggered_witness:
  "evaluated (apart [] 0.20) \<and> evaluated (apart [] 0.05) \<and>
   map pinch_predicate [apart [] 0.20, apart [] 0.05, apart [] 0.20] = [False, True, False] \<and>
   map isPinching (run_frames False False [apart [] 0.20, apart [] 0.05, apart [] 0.20]) =
     [False, True, False] \<and>
   length (filter is_start (concat (map emitted
     (run_frames False False [apart [] 0.20, apart [] 0.05, apart [] 0.20])))) = 1 \<and>
   length (filter is_end (concat (map emitted
     (run_frames False False [apart [] 0.20, apart [] 0.05, apart [] 0.20])))) = 1 \<and>
   pinch_events (concat (map emitted
     (run_frames False False [apart [] 0.20, apart [] 0.05, apart [] 0.20]))) =
     [OnPinchStart 0.525 0.5, OnPinchEnd] \<and>
   \<not> top_missing (apart (labelled ''Open_Palm'' 0.9) 0.05) \<and>
   \<not> evaluated (apart (labelled ''Open_Palm'' 0.9) 0.05) \<and>
   isPinching (predictWebcam False True (apart (labelled ''Open_Palm'' 0.9) 0.05)) = False \<and>
   pinch_events (emitted (predictWebcam False True (apart (labelled ''Open_Palm'' 0.9) 0.05))) =
     [OnPinchEnd]"
proof -
  let ?h = "\<lambda>d. hand21 (pt 0.5 0.5 0) (pt 0.5 0.5 0) (pt (0.5 + d) 0.5 0)"
  let ?b = "apart (labelled ''Open_Palm'' 0.9) 0.05"
  have ev: "\<forall>r\<in>set [apart [] 0.20, apart [] 0.05, apart [] 0.20]. evaluated r"
    by (simp add: evaluated_apart)
  have d: "distance (?h 0.20 ! 4) (?h 0.20 ! 8) = 0.20" "distance (?h 0.05 ! 4) (?h 0.05 ! 8) = 0.05"
    using distance_apart [of "0.20"] distance_apart [of "0.05"] by (simp_all add: hand21_def)
  have l: "landmarks (apart [] 0.20) = ?h 0.20 # []" "landmarks (apart [] 0.05) = ?h 0.05 # []"
    by (simp_all add: apart_def)
  have pp: "map pinch_predicate [apart [] 0.20, apart [] 0.05, apart [] 0.20] = [False, True, False]"
    by (simp add: pinch_predicate_apart)
  from pinch_edge_triggered [of False False "[apart [] 0.20, apart [] 0.05, apart [] 0.20]"
      "apart [] 0.20" "apart [] 0.05" "apart [] 0.20" "?h 0.20" "[]" "?h 0.05" "[]" "?h 0.20" "[]"]
    ev d l pp
  have tested: "map isPinching (run_frames False False [apart [] 0.20, apart [] 0.05, apart [] 0.20]) =
     [False, True, False] \<and>
   length (filter is_start (concat (map emitted
     (run_frames False False [apart [] 0.20, apart [] 0.05, apart [] 0.20])))) = 1 \<and>
   length (filter is_end (concat (map emitted
     (run_frames False False [apart [] 0.20, apart [] 0.05, apart [] 0.20])))) = 1 \<and>
   pinch_events (concat (map emitted
     (run_frames False False [apart [] 0.20, apart [] 0.05, apart [] 0.20]))) =
     [OnPinchStart 0.525 0.5, OnPinchEnd]"
    by (simp add: evaluated_apart hand21_def pt_def)
  have tm: "\<not> top_missing ?b"
    by (simp add: top_missing_def apart_def labelled_def)
  have ne: "\<not> evaluated ?b"
    by (simp add: evaluated_def currentGesture_def apart_def labelled_def)
  have lb: "landmarks ?b = (pt 0.5 0.5 0 # tl (?h 0.05)) # []"
    by (simp add: apart_def hand21_def)
  from pinch_edge_triggered [where dbg = False and p = True and r = ?b
      and wrist = "pt 0.5 0.5 0" and pts = "tl (?h 0.05)" and hs = "[]"] tm ne lb
  have untested: "isPinching (predictWebcam False True ?b) = False \<and>
      pinch_events (emitted (predictWebcam False True ?b)) = [OnPinchEnd]"
    by simp
  from tested untested tm ne pp show ?thesis
    by (simp add: evaluated_apart)
qed

text \<open>
  Claim C2. A frame without a hand, processed while the stored pinch flag is true, makes
  only the \<open>onMove(0)\<close> call: no \<open>onPinchEnd\<close>, and the flag stays true.
\<close>

theorem no_hand_keeps_pinching:
  "predictWebcam False True no_hand =
     \<lparr>emitted = [OnMove 0], isPinching = True, raised = None\<rparr>"
  by (simp add: predictWebcam_def recognise_def track_hand_def no_hand_def)

section \<open>Rotation speed\<close>

text \<open>
  Claim C4. On a frame with a hand, \<open>onMove\<close> is called once, with
  \<open>(0.5 - landmarks[0].x) * 0.15\<close> when the absolute value of that speed exceeds 0.01 and
  with 0 otherwise; on a frame without a hand it is called once with 0. The frame is one
  that the recogniser can deliver: the first hand has a wrist point, and a hand that
  has a category list has a first category.
\<close>

theorem rotation_speed:
  "\<not> top_missing r \<longrightarrow>
     (landmarks r = (wrist # pts) # hs \<longrightarrow>
        move_events (emitted (predictWebcam dbg p r)) =
          [OnMove (if 0.01 < \<bar>(0.5 - lm_x wrist) * 0.15\<bar> then (0.5 - lm_x wrist) * 0.15 else 0)]) \<and>
     (landmarks r = [] \<longrightarrow> move_events (emitted (predictWebcam dbg p r)) = [OnMove 0])"
  using predictWebcam_hand [of r wrist pts hs dbg p] predictWebcam_no_hand [of r dbg p]
  by blast

theorem rotation_speed_witness:
  "\<not> top_missing (hand_at 0.1) \<and>
   landmarks (hand_at 0.1) = hand21 (pt 0.1 0.5 0) (pt 0.4 0.5 0) (pt 0.6 0.5 0) # [] \<and>
   move_events (emitted (predictWebcam False False (hand_at 0.1))) = [OnMove 0.06] \<and>
   \<not> top_missing (hand_at 0.45) \<and>
   landmarks (hand_at 0.45) = hand21 (pt 0.45 0.5 0) (pt 0.4 0.5 0) (pt 0.6 0.5 0) # [] \<and>
   move_events (emitted (predictWebcam False False (hand_at 0.45))) = [OnMove 0] \<and>
   \<not> top_missing no_hand \<and> landmarks no_hand = [] \<and>
   move_events (emitted (predictWebcam False False no_hand)) = [OnMove 0]"
  using rotation_speed [of "hand_at 0.1" "pt 0.1 0.5 0" "tl (hand21 (pt 0.1 0.5 0) (pt 0.4 0.5 0) (pt 0.6 0.5 0))" "[]" False False]
    rotation_speed [of "hand_at 0.45" "pt 0.45 0.5 0" "tl (hand21 (pt 0.45 0.5 0) (pt 0.4 0.5 0) (pt 0.6 0.5 0))" "[]" False False]
    rotation_speed [of no_hand undefined undefined undefined False False]
  by (simp add: hand_at_def hand21_def pt_def no_hand_def top_missing_def)

section \<open>Open palm and pinch\<close>

lemma filter_start_pinch_events: "filter is_start (pinch_events es) = filter is_start es"
  by (induction es) (auto simp: pinch_events_def is_pinch_def)

lemma filter_end_pinch_events: "filter is_end (pinch_events es) = filter is_end es"
  by (induction es) (auto simp: pinch_events_def is_pinch_def)

text \<open>
  The calls do not count the transitions of the pinch predicate along every sequence of
  frames. Thumb and index are 0.05 apart on three frames in a row, the second one
  labelled Open_Palm with score 0.9: the predicate is true on all three, with one
  false-to-true step from the false flag at the start and no true-to-false step, while
  the Open_Palm frame releases the pinch (lines 1604 to 1612) and the third frame starts
  it again, two \<open>onPinchStart\<close> calls and one \<open>onPinchEnd\<close> call.
\<close>

theorem open_palm_between_pinches:
  "map pinch_predicate
     [apart [] 0.05, apart (labelled ''Open_Palm'' 0.9) 0.05, apart [] 0.05] =
     [True, True, True] \<and>
   rising (False # map pinch_predicate
     [apart [] 0.05, apart (labelled ''Open_Palm'' 0.9) 0.05, apart [] 0.05]) = 1 \<and>
   falling (False # map pinch_predicate
     [apart [] 0.05, apart (labelled ''Open_Palm'' 0.9) 0.05, apart [] 0.05]) = 0 \<and>
   pinch_events (concat (map emitted (run_frames False False
     [apart [] 0.05, apart (labelled ''Open_Palm'' 0.9) 0.05, apart [] 0.05]))) =
     [OnPinchStart 0.525 0.5, OnPinchEnd, OnPinchStart 0.525 0.5] \<and>
   length (filter is_start (concat (map emitted (run_frames False False
     [apart [] 0.05, apart (labelled ''Open_Palm'' 0.9) 0.05, apart [] 0.05])))) = 2 \<and>
   length (filter is_end (concat (map emitted (run_frames False False
     [apart [] 0.05, apart (labelled ''Open_Palm'' 0.9) 0.05, apart [] 0.05])))) = 1"
proof -
  let ?a = "apart [] 0.05"
  let ?b = "apart (labelled ''Open_Palm'' 0.9) 0.05"
  let ?h = "hand21 (pt 0.5 0.5 0) (pt 0.5 0.5 0) (pt (0.5 + 0.05) 0.5 0)"
  have pp: "pinch_predicate ?a" "pinch_predicate ?b"
    by (simp_all add: pinch_predicate_apart)
  have la: "landmarks ?a = ?h # []"
    by (simp add: apart_def)
  have lb: "landmarks ?b = (pt 0.5 0.5 0 # tl ?h) # []"
    by (simp add: apart_def hand21_def)
  have tm: "\<not> top_missing ?b"
    by (simp add: top_missing_def apart_def labelled_def)
  have ne: "\<not> evaluated ?b"
    by (simp add: evaluated_def currentGesture_def apart_def labelled_def)
  from evaluated_frame [OF evaluated_apart la, where dbg = False and p = False] pp
  have f1: "raised (predictWebcam False False ?a) = None"
    "isPinching (predictWebcam False False ?a) = True"
    "pinch_events (emitted (predictWebcam False False ?a)) = [OnPinchStart 0.525 0.5]"
    by (simp_all add: hand21_def pt_def)
  from untested_hand_frame [OF tm lb ne, of False True]
  have f2: "raised (predictWebcam False True ?b) = None"
    "isPinching (predictWebcam False True ?b) = False"
    "pinch_events (emitted (predictWebcam False True ?b)) = [OnPinchEnd]"
    by simp_all
  have ev: "pinch_events (concat (map emitted (run_frames False False [?a, ?b, ?a]))) =
     [OnPinchStart 0.525 0.5, OnPinchEnd, OnPinchStart 0.525 0.5]"
    using f1 f2 by (simp add: Let_def pinch_events_append pinch_events_Nil)
  have "length (filter is_start (pinch_events (concat (map emitted
          (run_frames False False [?a, ?b, ?a]))))) = 2"
    and "length (filter is_end (pinch_events (concat (map emitted
          (run_frames False False [?a, ?b, ?a]))))) = 1"
    unfolding ev by simp_all
  then have n: "length (filter is_start (concat (map emitted
          (run_frames False False [?a, ?b, ?a])))) = 2"
    "length (filter is_end (concat (map emitted
          (run_frames False False [?a, ?b, ?a])))) = 1"
    by (simp_all only: filter_start_pinch_events filter_end_pinch_events)
  from pp ev n show ?thesis
    by simp
qed

lemma currentGesture_top:
  "gestures r = (c # cs) # gs \<Longrightarrow>
     currentGesture r = (if 0.4 < score c then Some (categoryName c) else None) \<and> \<not> top_missing r"
  by (simp add: currentGesture_def top_missing_def)

lemma open_palm_pinch_events:
  assumes "gestures r = (c # cs) # gs" and "0.4 < score c" and "categoryName c = ''Open_Palm''"
  shows "pinch_events (emitted (predictWebcam dbg p r)) =
           (case landmarks r of (wrist # pts) # hs \<Rightarrow> if p then [OnPinchEnd] else [] | _ \<Rightarrow> []) \<and>
         isPinching (predictWebcam dbg p r) =
           (case landmarks r of (wrist # pts) # hs \<Rightarrow> False | _ \<Rightarrow> p)"
proof -
  from currentGesture_top [OF assms(1)] assms(2,3)
  have cg: "currentGesture r = Some ''Open_Palm''" and tm: "\<not> top_missing r"
    by simp_all
  show ?thesis
  proof (cases "landmarks r")
    case Nil
    with predictWebcam_no_hand [OF tm Nil, of dbg p] show ?thesis by simp
  next
    case (Cons hand hs)
    show ?thesis
    proof (cases hand)
      case Nil
      with Cons predictWebcam_empty_hand [OF tm, of hs dbg p] show ?thesis by simp
    next
      case (Cons wrist pts)
      with \<open>landmarks r = hand # hs\<close> cg predictWebcam_hand [OF tm, of wrist pts hs dbg p]
      show ?thesis by simp
    qed
  qed
qed

text \<open>
  With a true pinch flag, an Open_Palm frame (score 0.9, a hand of 21 points, thumb and
  index 0.05 apart) takes the branch of lines 1604 to 1612 and calls \<open>onPinchEnd\<close>: the
  statement that an Open_Palm frame makes no pinch call whatever the stored flag does not
  hold.
\<close>

theorem open_palm_ends_pinch:
  "emitted (predictWebcam False True (apart (labelled ''Open_Palm'' 0.9) 0.05)) =
     [OnGesture CHAOS, OnMove 0, OnPinchEnd]"
  by (simp add: predictWebcam_def recognise_def track_hand_def reset_pinch_def apart_def
      labelled_def hand21_def pt_def)

text \<open>
  Claim C5, as amended. On a frame whose current gesture is Open_Palm (score above 0.4),
  \<open>onPinchStart\<close> is never called, whatever the thumb and index distance and the stored
  pinch flag; with a false flag no pinch call is made at all; with a true flag and a hand
  present, \<open>onPinchEnd\<close> is called once and the flag is reset.
\<close>

theorem open_palm_no_pinch_start:
  "gestures r = (c # cs) # gs \<and> 0.4 < score c \<and> categoryName c = ''Open_Palm'' \<longrightarrow>
     filter is_start (emitted (predictWebcam dbg p r)) = [] \<and>
     (\<not> p \<longrightarrow> pinch_events (emitted (predictWebcam dbg p r)) = []) \<and>
     (p \<and> landmarks r = (wrist # pts) # hs \<longrightarrow>
        pinch_events (emitted (predictWebcam dbg p r)) = [OnPinchEnd] \<and>
        \<not> isPinching (predictWebcam dbg p r))"
proof (intro impI)
  assume a: "gestures r = (c # cs) # gs \<and> 0.4 < score c \<and> categoryName c = ''Open_Palm''"
  then have e: "pinch_events (emitted (predictWebcam dbg p r)) =
           (case landmarks r of (wrist # pts) # hs \<Rightarrow> if p then [OnPinchEnd] else [] | _ \<Rightarrow> [])"
    and i: "isPinching (predictWebcam dbg p r) =
           (case landmarks r of (wrist # pts) # hs \<Rightarrow> False | _ \<Rightarrow> p)"
    using open_palm_pinch_events [of r c cs gs dbg p] by simp_all
  have "filter is_start (pinch_events (emitted (predictWebcam dbg p r))) = []"
    unfolding e by (simp split: list.splits)
  then have s: "filter is_start (emitted (predictWebcam dbg p r)) = []"
    by (simp only: filter_start_pinch_events)
  from e have n: "\<not> p \<longrightarrow> pinch_events (emitted (predictWebcam dbg p r)) = []"
    by (auto split: list.splits)
  from e i have "p \<and> landmarks r = (wrist # pts) # hs \<longrightarrow>
        pinch_events (emitted (predictWebcam dbg p r)) = [OnPinchEnd] \<and>
        \<not> isPinching (predictWebcam dbg p r)"
    by auto
  with s n show "filter is_start (emitted (predictWebcam dbg p r)) = [] \<and>
     (\<not> p \<longrightarrow> pinch_events (emitted (predictWebcam dbg p r)) = []) \<and>
     (p \<and> landmarks r = (wrist # pts) # hs \<longrightarrow>
        pinch_events (emitted (predictWebcam dbg p r)) = [OnPinchEnd] \<and>
        \<not> isPinching (predictWebcam dbg p r))"
    by blast
qed

theorem open_palm_no_pinch_start_witness:
  "gestures (apart (labelled ''Open_Palm'' 0.9) 0.05) =
     (\<lparr>categoryName = ''Open_Palm'', score = 0.9\<rparr> # []) # [] \<and>
   landmarks (apart (labelled ''Open_Palm'' 0.9) 0.05) =
     hand21 (pt 0.5 0.5 0) (pt 0.5 0.5 0) (pt 0.55 0.5 0) # [] \<and>
   pinch_predicate (apart (labelled ''Open_Palm'' 0.9) 0.05) \<and>
   filter is_start (emitted (predictWebcam False False (apart (labelled ''Open_Palm'' 0.9) 0.05))) = [] \<and>
   pinch_events (emitted (predictWebcam False False (apart (labelled ''Open_Palm'' 0.9) 0.05))) = [] \<and>
   pinch_events (emitted (predictWebcam False True (apart (labelled ''Open_Palm'' 0.9) 0.05))) =
     [OnPinchEnd] \<and>
   \<not> isPinching (predictWebcam False True (apart (labelled ''Open_Palm'' 0.9) 0.05))"
proof -
  let ?r = "apart (labelled ''Open_Palm'' 0.9) 0.05"
  let ?c = "\<lparr>categoryName = ''Open_Palm'', score = 0.9\<rparr>"
  have g: "gestures ?r = (?c # []) # []"
    by (simp add: apart_def labelled_def)
  have l: "landmarks ?r = (pt 0.5 0.5 0 # tl (hand21 (pt 0.5 0.5 0) (pt 0.5 0.5 0) (pt 0.55 0.5 0))) # []"
    by (simp add: apart_def hand21_def)
  have pp: "pinch_predicate ?r"
    by (simp add: pinch_predicate_apart)
  from open_palm_no_pinch_start [of ?r ?c "[]" "[]" False False] g
    open_palm_no_pinch_start [of ?r ?c "[]" "[]" False True "pt 0.5 0.5 0"
      "tl (hand21 (pt 0.5 0.5 0) (pt 0.5 0.5 0) (pt 0.55 0.5 0))" "[]"] l pp
  show ?thesis
    by (simp add: hand21_def)
qed

section \<open>Hands with fewer than nine points\<close>

text \<open>
  A hand of five points with the wrist at \<open>x = 0.1\<close> is not treated as an absent hand:
  \<open>onMove\<close> is called with \<open>(0.5 - 0.1) * 0.15 = 0.06\<close>, not with 0.
\<close>

theorem short_hand_rotates:
  "move_events (emitted (predictWebcam False False short_hand)) = [OnMove 0.06] \<and>
   move_events (emitted (predictWebcam False False short_hand)) \<noteq> [OnMove 0]"
  by (simp add: predictWebcam_def recognise_def track_hand_def reset_pinch_def short_hand_def
      pt_def move_events_def numeral_eq_Suc)

text \<open>
  Claim C6, as amended. A hand reported with fewer than nine points (and at least the
  wrist point) still drives the rotation: \<open>onMove\<close> gets the speed of the wrist formula
  with its dead zone, as for a full hand. The pinch distance is not tested on such a
  frame: \<open>onPinchStart\<close> is not called, and a true pinch flag is reset with one
  \<open>onPinchEnd\<close> call. The frame raises no error. A hand with nine or more points, 21 or
  not, has its pinch distance tested like a full hand.
\<close>

theorem short_hand_frame:
  "(\<not> top_missing r \<and> landmarks r = (wrist # pts) # hs \<and> length (wrist # pts) < 9 \<longrightarrow>
      raised (predictWebcam dbg p r) = None \<and>
      move_events (emitted (predictWebcam dbg p r)) =
        [OnMove (if 0.01 < \<bar>(0.5 - lm_x wrist) * 0.15\<bar> then (0.5 - lm_x wrist) * 0.15 else 0)] \<and>
      pinch_events (emitted (predictWebcam dbg p r)) = (if p then [OnPinchEnd] else []) \<and>
      \<not> isPinching (predictWebcam dbg p r)) \<and>
   (evaluated r \<longrightarrow>
      raised (predictWebcam dbg p r) = None \<and>
      isPinching (predictWebcam dbg p r) = pinch_predicate r)"
proof (intro conjI impI)
  assume a: "\<not> top_missing r \<and> landmarks r = (wrist # pts) # hs \<and> length (wrist # pts) < 9"
  then have tm: "\<not> top_missing r" and l: "landmarks r = (wrist # pts) # hs"
    and n: "\<not> 9 \<le> length (wrist # pts)"
    by simp_all
  note f = predictWebcam_hand [OF tm l, of dbg p]
  from f show "raised (predictWebcam dbg p r) = None"
    by blast
  from f show "move_events (emitted (predictWebcam dbg p r)) =
        [OnMove (if 0.01 < \<bar>(0.5 - lm_x wrist) * 0.15\<bar> then (0.5 - lm_x wrist) * 0.15 else 0)]"
    by blast
  from f n show "pinch_events (emitted (predictWebcam dbg p r)) = (if p then [OnPinchEnd] else [])"
    by simp
  from f n show "\<not> isPinching (predictWebcam dbg p r)"
    by simp
next
  assume ev: "evaluated r"
  from evaluated_hand [OF ev] obtain hand hs' where h: "landmarks r = hand # hs'"
    by blast
  from evaluated_frame [OF ev h, of dbg p]
  show "raised (predictWebcam dbg p r) = None"
    and "isPinching (predictWebcam dbg p r) = pinch_predicate r"
    by simp_all
qed

theorem short_hand_frame_witness:
  "\<not> top_missing short_hand \<and>
   landmarks short_hand = (pt 0.1 0.5 0 # replicate 4 (pt 0.1 0.5 0)) # [] \<and>
   length (pt 0.1 0.5 0 # replicate 4 (pt 0.1 0.5 0)) < 9 \<and>
   raised (predictWebcam False True short_hand) = None \<and>
   move_events (emitted (predictWebcam False True short_hand)) = [OnMove 0.06] \<and>
   pinch_events (emitted (predictWebcam False True short_hand)) = [OnPinchEnd] \<and>
   \<not> isPinching (predictWebcam False True short_hand) \<and>
   evaluated (apart [] 0.05) \<and>
   raised (predictWebcam False True (apart [] 0.05)) = None \<and>
   isPinching (predictWebcam False True (apart [] 0.05))"
proof -
  have l: "landmarks short_hand = (pt 0.1 0.5 0 # replicate 4 (pt 0.1 0.5 0)) # []"
    by (simp add: short_hand_def numeral_eq_Suc)
  have tm: "\<not> top_missing short_hand"
    by (simp add: short_hand_def top_missing_def)
  have pp: "pinch_predicate (apart [] 0.05)"
    by (simp add: pinch_predicate_apart)
  from short_hand_frame [of short_hand "pt 0.1 0.5 0" "replicate 4 (pt 0.1 0.5 0)" "[]" False True] l tm
    short_hand_frame [of "apart [] 0.05" undefined undefined undefined False True]
    evaluated_apart [of "0.05"] pp
  show ?thesis
    by (simp add: pt_def)
qed

section \<open>Pinch coordinates\<close>

lemma in_pinch_events: "OnPinchStart x y \<in> set es \<Longrightarrow> OnPinchStart x y \<in> set (pinch_events es)"
  by (simp add: pinch_events_def is_pinch_def)

text \<open>
  Claim C7. Every \<open>onPinchStart(x, y)\<close> call of a frame has the midpoint of the thumb tip
  (landmark 4) and the index finger tip (landmark 8) of the first hand as coordinates,
  the vertical axis flipped: \<open>x = (thumbTip.x + indexTip.x) / 2\<close> and
  \<open>y = 1 - (thumbTip.y + indexTip.y) / 2\<close>.
\<close>

theorem pinch_start_coordinates:
  assumes "OnPinchStart x y \<in> set (emitted (predictWebcam dbg p r))"
  shows "\<exists>hand hs. landmarks r = hand # hs \<and> 9 \<le> length hand \<and>
           x = (lm_x (hand ! 4) + lm_x (hand ! 8)) / 2 \<and>
           y = 1 - (lm_y (hand ! 4) + lm_y (hand ! 8)) / 2"
proof -
  from in_pinch_events [OF assms]
  have m: "OnPinchStart x y \<in> set (pinch_events (emitted (predictWebcam dbg p r)))" .
  have tm: "\<not> top_missing r"
  proof
    assume "top_missing r"
    from predictWebcam_top_missing [OF this, of dbg p] assms show False by simp
  qed
  show ?thesis
  proof (cases "landmarks r")
    case Nil
    with predictWebcam_no_hand [OF tm Nil, of dbg p] m show ?thesis by simp
  next
    case (Cons hand hs)
    show ?thesis
    proof (cases hand)
      case Nil
      with Cons predictWebcam_empty_hand [OF tm, of hs dbg p] m show ?thesis by simp
    next
      case (Cons wrist pts)
      with \<open>landmarks r = hand # hs\<close> have l: "landmarks r = (wrist # pts) # hs" by simp
      from predictWebcam_hand [OF tm l, of dbg p] m
      have "9 \<le> length (wrist # pts) \<and>
            x = (lm_x ((wrist # pts) ! 4) + lm_x ((wrist # pts) ! 8)) / 2 \<and>
            y = 1 - (lm_y ((wrist # pts) ! 4) + lm_y ((wrist # pts) ! 8)) / 2"
        by (auto simp: pinch_events_detect_pinch split: if_splits)
      with l show ?thesis by blast
    qed
  qed
qed

theorem pinch_start_coordinates_witness:
  "OnPinchStart 0.525 0.5 \<in> set (emitted (predictWebcam False False (apart [] 0.05))) \<and>
   (\<exists>hand hs. landmarks (apart [] 0.05) = hand # hs \<and> 9 \<le> length hand \<and>
      (0.525::real) = (lm_x (hand ! 4) + lm_x (hand ! 8)) / 2 \<and>
      (0.5::real) = 1 - (lm_y (hand ! 4) + lm_y (hand ! 8)) / 2)"
proof -
  have pp: "pinch_predicate (apart [] 0.05)"
    by (simp add: pinch_predicate_apart)
  have l: "landmarks (apart [] 0.05) = hand21 (pt 0.5 0.5 0) (pt 0.5 0.5 0) (pt (0.5 + 0.05) 0.5 0) # []"
    by (simp add: apart_def)
  from evaluated_frame [OF evaluated_apart l, where dbg = False and p = False] pp
  have "pinch_events (emitted (predictWebcam False False (apart [] 0.05))) = [OnPinchStart 0.525 0.5]"
    by (simp add: hand21_def pt_def)
  then have "OnPinchStart 0.525 0.5 \<in> set (pinch_events (emitted (predictWebcam False False (apart [] 0.05))))"
    by simp
  then have h: "OnPinchStart 0.525 0.5 \<in> set (emitted (predictWebcam False False (apart [] 0.05)))"
    by (simp add: pinch_events_def)
  from h pinch_start_coordinates [OF h] show ?thesis
    by blast
qed

section \<open>Open palm with a low score\<close>

text \<open>
  Claim C10. Open_Palm keeps the pinch distance from being tested only when its score is
  above 0.4. On a frame labelled Open_Palm with a score of at most 0.4 and a hand of at
  least nine points, the current gesture is \<open>null\<close>, the pinch distance is tested, and a
  distance below 0.08 with a false pinch flag makes the \<open>onPinchStart\<close> call.
\<close>

theorem low_score_open_palm_pinch:
  "gestures r = (c # cs) # gs \<and> categoryName c = ''Open_Palm'' \<and> score c \<le> 0.4 \<and>
   landmarks r = hand # hs \<and> 9 \<le> length hand \<longrightarrow>
     currentGesture r = None \<and> evaluated r \<and>
     isPinching (predictWebcam dbg p r) = (distance (hand ! 4) (hand ! 8) < PINCH_THRESHOLD) \<and>
     (distance (hand ! 4) (hand ! 8) < PINCH_THRESHOLD \<and> \<not> p \<longrightarrow>
        pinch_events (emitted (predictWebcam dbg p r)) =
          [OnPinchStart ((lm_x (hand ! 4) + lm_x (hand ! 8)) / 2)
                        (1 - (lm_y (hand ! 4) + lm_y (hand ! 8)) / 2)])"
proof (intro impI)
  assume a: "gestures r = (c # cs) # gs \<and> categoryName c = ''Open_Palm'' \<and> score c \<le> 0.4 \<and>
   landmarks r = hand # hs \<and> 9 \<le> length hand"
  then have g: "gestures r = (c # cs) # gs" and l: "landmarks r = hand # hs"
    by simp_all
  from currentGesture_top [OF g] a have cg: "currentGesture r = None" and tm: "\<not> top_missing r"
    by simp_all
  from cg tm a have ev: "evaluated r"
    by (simp add: evaluated_def)
  from evaluated_frame [OF ev l, of dbg p] l
  have "isPinching (predictWebcam dbg p r) = (distance (hand ! 4) (hand ! 8) < PINCH_THRESHOLD)"
    and "distance (hand ! 4) (hand ! 8) < PINCH_THRESHOLD \<and> \<not> p \<longrightarrow>
        pinch_events (emitted (predictWebcam dbg p r)) =
          [OnPinchStart ((lm_x (hand ! 4) + lm_x (hand ! 8)) / 2)
                        (1 - (lm_y (hand ! 4) + lm_y (hand ! 8)) / 2)]"
    by (auto simp: pinch_predicate_def)
  with cg ev show "currentGesture r = None \<and> evaluated r \<and>
     isPinching (predictWebcam dbg p r) = (distance (hand ! 4) (hand ! 8) < PINCH_THRESHOLD) \<and>
     (distance (hand ! 4) (hand ! 8) < PINCH_THRESHOLD \<and> \<not> p \<longrightarrow>
        pinch_events (emitted (predictWebcam dbg p r)) =
          [OnPinchStart ((lm_x (hand ! 4) + lm_x (hand ! 8)) / 2)
                        (1 - (lm_y (hand ! 4) + lm_y (hand ! 8)) / 2)])"
    by blast
qed

theorem low_score_open_palm_pinch_witness:
  "gestures (apart (labelled ''Open_Palm'' 0.4) 0.05) =
     (\<lparr>categoryName = ''Open_Palm'', score = 0.4\<rparr> # []) # [] \<and>
   landmarks (apart (labelled ''Open_Palm'' 0.4) 0.05) =
     hand21 (pt 0.5 0.5 0) (pt 0.5 0.5 0) (pt 0.55 0.5 0) # [] \<and>
   length (hand21 (pt 0.5 0.5 0) (pt 0.5 0.5 0) (pt 0.55 0.5 0)) = 21 \<and>
   pinch_predicate (apart (labelled ''Open_Palm'' 0.4) 0.05) \<and>
   isPinching (predictWebcam False False (apart (labelled ''Open_Palm'' 0.4) 0.05)) \<and>
   pinch_events (emitted (predictWebcam False False (apart (labelled ''Open_Palm'' 0.4) 0.05))) =
     [OnPinchStart 0.525 0.5]"
proof -
  let ?r = "apart (labelled ''Open_Palm'' 0.4) 0.05"
  let ?h = "hand21 (pt 0.5 0.5 0) (pt 0.5 0.5 0) (pt (0.5 + 0.05) 0.5 0)"
  have g: "gestures ?r = (\<lparr>categoryName = ''Open_Palm'', score = 0.4\<rparr> # []) # []"
    by (simp add: apart_def labelled_def)
  have l: "landmarks ?r = ?h # []"
    by (simp add: apart_def)
  have n: "9 \<le> length ?h" "length ?h = 21"
    by (simp_all add: hand21_def)
  have pp: "pinch_predicate ?r"
    by (simp add: pinch_predicate_apart)
  have d: "distance (?h ! 4) (?h ! 8) < PINCH_THRESHOLD"
    using distance_apart [of "0.05"] by (simp add: hand21_def PINCH_THRESHOLD_def)
  from low_score_open_palm_pinch [of ?r "\<lparr>categoryName = ''Open_Palm'', score = 0.4\<rparr>" "[]" "[]"
      ?h "[]" False False] g l n d pp
  show ?thesis
    by (simp add: hand21_def pt_def)
qed

section \<open>Scene controller\<close>

lemma pt_sel: "lm_x (pt a b c) = a" "lm_y (pt a b c) = b" "lm_z (pt a b c) = c"
  by (simp_all add: pt_def)

lemma distance_sample: "distance (pt (1 / 2) (1 / 2) 0) (pt (11 / 20) (1 / 2) 0) = 1 / 20"
  using distance_apart [of "0.05"] by simp

lemma pinch_frame_calls:
  "emitted (predictWebcam False False (apart [] 0.05)) = [OnMove 0, OnPinchStart 0.525 0.5]"
  by (simp add: predictWebcam_def recognise_def track_hand_def detect_pinch_def apart_def
      hand21_def distance_sample pt_sel PINCH_THRESHOLD_def)

lemma fist_frame_calls:
  "emitted (predictWebcam False True (apart (labelled ''Closed_Fist'' 0.9) 0.05)) =
     [OnGesture FORMED, OnMove 0]"
  by (simp add: predictWebcam_def recognise_def track_hand_def detect_pinch_def apart_def
      labelled_def hand21_def distance_sample pt_sel PINCH_THRESHOLD_def)

lemma fist_pinch_frame_calls:
  "emitted (predictWebcam False False (apart (labelled ''Closed_Fist'' 0.9) 0.05)) =
     [OnGesture FORMED, OnMove 0, OnPinchStart 0.525 0.5]"
  by (simp add: predictWebcam_def recognise_def track_hand_def detect_pinch_def apart_def
      labelled_def hand21_def distance_sample pt_sel PINCH_THRESHOLD_def)

lemma formed_from_chaos_clears:
  "sceneState s = CHAOS \<Longrightarrow>
     apply_frame [OnGesture FORMED] s = s\<lparr>sceneState := FORMED, selectedPhotoIndex := None\<rparr>"
  by (simp add: apply_frame_def callback_def render_def reset_selected_def)

lemma scheduled_callback_selects:
  "timeouts s = (x, y) # rest \<Longrightarrow> \<exists>i. selectedPhotoIndex (run_timeout F rnd s) = Some i"
  by (simp add: run_timeout_def timeout_callback_def Let_def split: option.splits)

text \<open>
  Claim C8. \<open>onGesture(FORMED)\<close> does not clear every selection. From the initial state
  in CHAOS, a frame with a pinch start schedules the selection (the state is written 100
  ms later); a frame labelled Closed_Fist then sets the formation state to FORMED, and
  the effect clears the selection, which is still empty; the scheduled callback then runs
  (no hit, random value 0.5) and selects ornament 36 while the state is FORMED. A further
  frame labelled Closed_Fist calls \<open>onGesture(FORMED)\<close> again: the state variable keeps
  its value, the effect does not run, and ornament 36 stays selected. The two frames are
  the calls of \<open>predictWebcam\<close> on a pinching hand and on a pinching hand labelled
  Closed_Fist.
\<close>

theorem formed_keeps_late_selection:
  "emitted (predictWebcam False False (apart [] 0.05)) = [OnMove 0, OnPinchStart 0.525 0.5] \<and>
   apply_frame [OnMove 0, OnPinchStart 0.525 0.5] initial =
     \<lparr>sceneState = CHAOS, rotationSpeed = 0, selectedPhotoIndex = None,
      timeouts = [(0.525, 0.5)]\<rparr> \<and>
   emitted (predictWebcam False True (apart (labelled ''Closed_Fist'' 0.9) 0.05)) =
     [OnGesture FORMED, OnMove 0] \<and>
   apply_frame [OnGesture FORMED, OnMove 0]
     \<lparr>sceneState = CHAOS, rotationSpeed = 0, selectedPhotoIndex = None,
      timeouts = [(0.525, 0.5)]\<rparr> =
     \<lparr>sceneState = FORMED, rotationSpeed = 0, selectedPhotoIndex = None,
      timeouts = [(0.525, 0.5)]\<rparr> \<and>
   run_timeout None 0.5
     \<lparr>sceneState = FORMED, rotationSpeed = 0, selectedPhotoIndex = None,
      timeouts = [(0.525, 0.5)]\<rparr> =
     \<lparr>sceneState = FORMED, rotationSpeed = 0, selectedPhotoIndex = Some 36, timeouts = []\<rparr> \<and>
   apply_frame [OnGesture FORMED, OnMove 0]
     \<lparr>sceneState = FORMED, rotationSpeed = 0, selectedPhotoIndex = Some 36, timeouts = []\<rparr> =
     \<lparr>sceneState = FORMED, rotationSpeed = 0, selectedPhotoIndex = Some 36, timeouts = []\<rparr>"
  using pinch_frame_calls fist_frame_calls
  by (simp add: apply_frame_def callback_def render_def
      reset_selected_def handlePinchStart_def run_timeout_def timeout_callback_def
      lookup_photo_def initial_def ornaments_def)

text \<open>
  Claim C9. A pinch start is not ignored when the formation state has just been set to
  FORMED. On a frame labelled Closed_Fist (score 0.9) whose thumb and index are 0.05
  apart, processed in CHAOS with a false pinch flag, \<open>predictWebcam\<close> calls
  \<open>onGesture(FORMED)\<close> and then \<open>onPinchStart\<close>. \<open>handlePinchStart\<close> tests the \<open>sceneState\<close>
  of the last render, which is CHAOS, and schedules the selection; when the scheduled
  callback runs (no hit, random value 0.5), ornament 36 is selected while the formation
  state is FORMED.
\<close>

theorem pinch_start_after_formed_not_ignored:
  "emitted (predictWebcam False False (apart (labelled ''Closed_Fist'' 0.9) 0.05)) =
     [OnGesture FORMED, OnMove 0, OnPinchStart 0.525 0.5] \<and>
   apply_frame [OnGesture FORMED, OnMove 0, OnPinchStart 0.525 0.5] initial =
     \<lparr>sceneState = FORMED, rotationSpeed = 0, selectedPhotoIndex = None,
      timeouts = [(0.525, 0.5)]\<rparr> \<and>
   run_timeout None 0.5
     \<lparr>sceneState = FORMED, rotationSpeed = 0, selectedPhotoIndex = None,
      timeouts = [(0.525, 0.5)]\<rparr> =
     \<lparr>sceneState = FORMED, rotationSpeed = 0, selectedPhotoIndex = Some 36, timeouts = []\<rparr>"
  using fist_pinch_frame_calls
  by (simp add: apply_frame_def callback_def render_def
      reset_selected_def handlePinchStart_def run_timeout_def timeout_callback_def
      lookup_photo_def initial_def ornaments_def)

end
